theory Spec2Isabelle
  imports Complex_Main "HOL-Library.Sublist"
begin

section \<open>Data model (types.ts)\<close>

text \<open>
  The coordinates, the distance and the radius are modelled as real numbers, and the arithmetic
  on them as exact: the rounding of the doubles is not modelled.  Where a computation of the
  code can leave the finite numbers (\<open>Infinity\<close>, \<open>NaN\<close>) the model says so in the type
  \<open>js_number\<close>.  An optional field (\<open>latitude?: number\<close>) is an \<open>option\<close>.
\<close>

record Business =
  title :: string
  uri :: string
  placeId :: string
  latitude :: "real option"
  longitude :: "real option"

text \<open>The fields of \<open>LocationCoords\<close> carry a prefix, to keep them apart from a business's.\<close>

record LocationCoords =
  lc_latitude :: real
  lc_longitude :: real

record MapsInfo =
  maps_uri :: string
  maps_title :: string
  maps_placeId :: string

record GroundingChunk =
  maps :: "MapsInfo option"

section \<open>The JavaScript built-ins the code relies on\<close>

subsection \<open>\<open>Map\<close>: insertion-ordered, a repeated key keeps its place and takes the new value\<close>

type_synonym ('k, 'v) js_map = "('k \<times> 'v) list"

fun map_set :: "('k, 'v) js_map \<Rightarrow> 'k \<Rightarrow> 'v \<Rightarrow> ('k, 'v) js_map" where
  "map_set [] k v = [(k, v)]"
| "map_set ((k', v') # m) k v =
     (if k' = k then (k', v) # m else (k', v') # map_set m k v)"

fun map_add_entries :: "('k, 'v) js_map \<Rightarrow> ('k \<times> 'v) list \<Rightarrow> ('k, 'v) js_map" where
  "map_add_entries m [] = m"
| "map_add_entries m ((k, v) # es) = map_add_entries (map_set m k v) es"

definition new_Map :: "('k \<times> 'v) list \<Rightarrow> ('k, 'v) js_map" where
  "new_Map entries = map_add_entries [] entries"

definition map_values :: "('k, 'v) js_map \<Rightarrow> 'v list" where
  "map_values m = map snd m"

subsection \<open>\<open>String.prototype.trim\<close> and truthiness\<close>

definition js_whitespace :: "char \<Rightarrow> bool" where
  "js_whitespace c \<longleftrightarrow>
     c \<in> {CHR 0x09, CHR 0x0A, CHR 0x0B, CHR 0x0C, CHR 0x0D, CHR 0x20, CHR 0xA0}"

definition trim :: "string \<Rightarrow> string" where
  "trim s = rev (dropWhile js_whitespace (rev (dropWhile js_whitespace s)))"

definition truthy_string :: "string \<Rightarrow> bool" where
  "truthy_string s \<longleftrightarrow> s \<noteq> []"

text \<open>A number is truthy unless it is \<open>0\<close> (or \<open>NaN\<close>); \<open>undefined\<close> is falsy.\<close>

definition truthy_number :: "real option \<Rightarrow> bool" where
  "truthy_number x = (case x of None \<Rightarrow> False | Some v \<Rightarrow> v \<noteq> 0)"

section \<open>services/geminiService.ts: \<open>findNearbyBusinesses\<close>\<close>

datatype thrown = JsError string | NonError

datatype 'a outcome = Throws thrown | Returns 'a

record JsonBusiness =
  j_title :: string
  j_placeId :: string
  j_latitude :: "real option"
  j_longitude :: "real option"

text \<open>
  \<open>response.text\<close> as the code reads it: absent or empty (falsy), text on which
  \<open>JSON.parse\<close> or the reading of the parsed businesses raises an \<open>Error\<close> with the
  given message, or an object whose \<open>businesses\<close> property is absent or a list.
\<close>

datatype response_text =
    NoText
  | BadJson string
  | JsonObject "JsonBusiness list option"

record GenerateContentResponse =
  resp_text :: response_text
  groundingChunks :: "GroundingChunk list option"

datatype request =
    NearCoordinates string real real
  | InPlace string string

record environment =
  API_KEY :: "string option"
  generateContent :: "request \<Rightarrow> GenerateContentResponse outcome"
  encodeURIComponent :: "string \<Rightarrow> string"

definition uniqueBusinesses :: "Business list \<Rightarrow> Business list" where
  "uniqueBusinesses businesses =
     map_values (new_Map (map (\<lambda>item. (placeId item, item)) businesses))"

definition from_json :: "environment \<Rightarrow> JsonBusiness \<Rightarrow> Business" where
  "from_json env b =
     \<lparr> title = j_title b,
       uri = ''https://www.google.com/maps/search/?api=1&query=''
             @ encodeURIComponent env (j_title b) @ ''&query_place_id='' @ j_placeId b,
       placeId = j_placeId b,
       latitude = j_latitude b,
       longitude = j_longitude b \<rparr>"

definition chunk_ok :: "GroundingChunk \<Rightarrow> bool" where
  "chunk_ok chunk =
     (case maps chunk of
        None \<Rightarrow> False
      | Some m \<Rightarrow> truthy_string (maps_title m) \<and> truthy_string (maps_uri m))"

definition from_chunk :: "GroundingChunk \<Rightarrow> Business" where
  "from_chunk chunk =
     (let m = the (maps chunk)
      in \<lparr> title = maps_title m, uri = maps_uri m, placeId = maps_placeId m,
           latitude = None, longitude = None \<rparr>)"

text \<open>
  The body of the \<open>try\<close> block, in three parts: choosing the request, reading the
  response, and removing duplicates.  \<open>Inl\<close> is what the block throws.
\<close>

definition build_request ::
  "string \<Rightarrow> LocationCoords option \<Rightarrow> string option \<Rightarrow> thrown + request"
where
  "build_request category location manualLocation =
     (case location of
        Some l \<Rightarrow> Inr (NearCoordinates category (lc_latitude l) (lc_longitude l))
      | None \<Rightarrow>
          (case manualLocation of
             None \<Rightarrow> Inl (JsError ''A location (either automatic or manual) must be provided.'')
           | Some ml \<Rightarrow>
               if truthy_string (trim ml) then Inr (InPlace category ml)
               else Inl (JsError ''A location (either automatic or manual) must be provided.'')))"

definition read_response ::
  "environment \<Rightarrow> LocationCoords option \<Rightarrow> GenerateContentResponse \<Rightarrow> thrown + Business list"
where
  "read_response env location response =
     (case location of
        Some l \<Rightarrow>
          (case resp_text response of
             NoText \<Rightarrow> Inr []
           | BadJson msg \<Rightarrow> Inl (JsError msg)
           | JsonObject None \<Rightarrow> Inr (map (from_json env) [])
           | JsonObject (Some bs) \<Rightarrow> Inr (map (from_json env) bs))
      | None \<Rightarrow>
          (case groundingChunks response of
             None \<Rightarrow> Inr []
           | Some chunks \<Rightarrow>
               if length chunks > 0 then Inr (map from_chunk (filter chunk_ok chunks))
               else Inr []))"

definition findNearbyBusinesses_try ::
  "environment \<Rightarrow> string \<Rightarrow> LocationCoords option \<Rightarrow> string option \<Rightarrow> thrown + Business list"
where
  "findNearbyBusinesses_try env category location manualLocation =
     (if \<not> (case API_KEY env of None \<Rightarrow> False | Some key \<Rightarrow> truthy_string key)
      then Inl (JsError ''API_KEY environment variable not set'')
      else
        (case build_request category location manualLocation of
           Inl e \<Rightarrow> Inl e
         | Inr contents \<Rightarrow>
             (case generateContent env contents of
                Throws e \<Rightarrow> Inl e
              | Returns response \<Rightarrow>
                  (case read_response env location response of
                     Inl e \<Rightarrow> Inl e
                   | Inr businesses \<Rightarrow> Inr (uniqueBusinesses businesses)))))"

text \<open>The \<open>catch\<close> clause: every failure leaves as an \<open>Error\<close> with a prefixed message.\<close>

definition findNearbyBusinesses ::
  "environment \<Rightarrow> string \<Rightarrow> LocationCoords option \<Rightarrow> string option \<Rightarrow> thrown + Business list"
where
  "findNearbyBusinesses env category location manualLocation =
     (case findNearbyBusinesses_try env category location manualLocation of
        Inl (JsError message) \<Rightarrow> Inl (JsError (''Failed to find businesses: '' @ message))
      | Inl NonError \<Rightarrow> Inl (JsError ''An unknown error occurred while finding businesses.'')
      | Inr result \<Rightarrow> Inr result)"

section \<open>App.tsx\<close>

subsection \<open>\<open>getDistance\<close>\<close>

text \<open>\<open>Math.atan2(y, x)\<close>: the angle of the point \<open>(x, y)\<close>, in \<open>(-\<pi>, \<pi>]\<close>.\<close>

definition atan2 :: "real \<Rightarrow> real \<Rightarrow> real" where
  "atan2 y x =
     (if 0 < x then arctan (y / x)
      else if x < 0 then (if 0 \<le> y then arctan (y / x) + pi else arctan (y / x) - pi)
      else if 0 < y then pi / 2
      else if y < 0 then - (pi / 2)
      else 0)"

text \<open>
  \<open>haversine_a\<close> is the value of the variable \<open>a\<close> and \<open>getDistance\<close> the value returned,
  both in exact arithmetic, where \<open>a\<close> lies between 0 and 1.  The doubles' \<open>a\<close> differs from
  it by rounding, and can leave that range: what lines 19 to 21 return then is
  \<open>getDistance_from_a\<close> below.
\<close>

definition haversine_a :: "LocationCoords \<Rightarrow> LocationCoords \<Rightarrow> real" where
  "haversine_a loc1 loc2 =
     (let dLat = (lc_latitude loc2 - lc_latitude loc1) * (pi / 180);
          dLon = (lc_longitude loc2 - lc_longitude loc1) * (pi / 180)
      in sin (dLat / 2) * sin (dLat / 2) +
         cos (lc_latitude loc1 * (pi / 180)) *
         cos (lc_latitude loc2 * (pi / 180)) *
         sin (dLon / 2) *
         sin (dLon / 2))"

definition getDistance :: "LocationCoords \<Rightarrow> LocationCoords \<Rightarrow> real" where
  "getDistance loc1 loc2 =
     (let R = 6371;
          a = haversine_a loc1 loc2;
          c = 2 * atan2 (sqrt a) (sqrt (1 - a));
          d = R * c
      in d)"

subsection \<open>Component state\<close>

text \<open>
  The \<open>favoriteBusinesses\<close> slot of \<open>localStorage\<close>: absent (or the empty string), text that
  \<open>JSON.parse\<close> rejects, or the serialisation of a list of businesses, which is what the
  component writes.
\<close>

datatype stored = Absent | Unparsable | StoredList "Business list"

record app_state =
  searchTerm :: string
  manualLocation :: string
  businesses :: "Business list"
  favorites :: "Business list"
  isLoading :: bool
  error :: "string option"
  location :: "LocationCoords option"
  locationError :: "string option"
  selectedBusiness :: "Business option"
  searchRadius :: real
  localStorage_favoriteBusinesses :: stored

definition initial_state :: "stored \<Rightarrow> app_state" where
  "initial_state slot =
     \<lparr> searchTerm = [], manualLocation = [], businesses = [], favorites = [],
       isLoading = False, error = None, location = None, locationError = None,
       selectedBusiness = None, searchRadius = 50,
       localStorage_favoriteBusinesses = slot \<rparr>"

subsection \<open>Favorites\<close>

text \<open>The effect that runs once after the first render.\<close>

definition load_favorites :: "app_state \<Rightarrow> app_state" where
  "load_favorites s =
     (case localStorage_favoriteBusinesses s of
        Absent \<Rightarrow> s
      | Unparsable \<Rightarrow> s
      | StoredList storedFavorites \<Rightarrow> s\<lparr>favorites := storedFavorites\<rparr>)"

definition isFavorite :: "app_state \<Rightarrow> Business \<Rightarrow> bool" where
  "isFavorite s business = list_ex (\<lambda>fav. placeId fav = placeId business) (favorites s)"

definition toggleFavorite :: "app_state \<Rightarrow> Business \<Rightarrow> app_state" where
  "toggleFavorite s business =
     (let updatedFavorites =
            (if isFavorite s business
             then filter (\<lambda>fav. placeId fav \<noteq> placeId business) (favorites s)
             else favorites s @ [business])
      in s\<lparr>favorites := updatedFavorites,
           localStorage_favoriteBusinesses := StoredList updatedFavorites\<rparr>)"

subsection \<open>\<open>handleSearch\<close>\<close>

text \<open>
  \<open>handleSearch\<close> is asynchronous.  Its synchronous prefix either returns at once or leaves
  the component in the state that is shown while the lookup is pending; the rest runs when the
  lookup has settled.
\<close>

datatype search_step = Finished app_state | Awaiting app_state

definition handleSearch_begin :: "app_state \<Rightarrow> search_step" where
  "handleSearch_begin s =
     (if \<not> truthy_string (trim (searchTerm s))
      then Finished (s\<lparr>error := Some ''Please enter a business category to search.''\<rparr>)
      else if location s = None \<and> \<not> truthy_string (trim (manualLocation s))
      then Finished (s\<lparr>error := Some (''Could not get your location. Please enable location ''
                       @ ''services in your browser or enter a location manually.'')\<rparr>)
      else Awaiting (s\<lparr>isLoading := True, error := None, businesses := []\<rparr>))"

definition no_results_message :: "string \<Rightarrow> string" where
  "no_results_message category =
     ''No results found for \"'' @ category @ ''\". Try a different category or location.''"

definition handleSearch_settle :: "string \<Rightarrow> app_state \<Rightarrow> thrown + Business list \<Rightarrow> app_state" where
  "handleSearch_settle category s settled =
     (case settled of
        Inr results \<Rightarrow>
          (let s1 = (if length results = 0 then s\<lparr>error := Some (no_results_message category)\<rparr>
                     else s)
           in s1\<lparr>businesses := results, isLoading := False\<rparr>)
      | Inl (JsError message) \<Rightarrow> s\<lparr>error := Some message, isLoading := False\<rparr>
      | Inl NonError \<Rightarrow> s\<lparr>error := Some ''An unknown error occurred.'', isLoading := False\<rparr>)"

type_synonym lookup_call = "string \<times> LocationCoords option \<times> string option"

text \<open>The final state, together with the calls of \<open>findNearbyBusinesses\<close> that were made.\<close>

definition handleSearch :: "environment \<Rightarrow> app_state \<Rightarrow> app_state \<times> lookup_call list" where
  "handleSearch env s =
     (case handleSearch_begin s of
        Finished s' \<Rightarrow> (s', [])
      | Awaiting s' \<Rightarrow>
          (handleSearch_settle (searchTerm s) s'
             (findNearbyBusinesses env (searchTerm s) (location s) (Some (manualLocation s))),
           [(searchTerm s, location s, Some (manualLocation s))]))"

subsection \<open>\<open>businessesWithDistance\<close>\<close>

record Ranked =
  biz :: Business
  distance :: "real option"

text \<open>
  The comparator subtracts numbers that may be \<open>Infinity\<close>, so its result may be
  \<open>\<plusminus>Infinity\<close> or \<open>NaN\<close>.
\<close>

datatype js_number = Finite real | PosInfinity | NegInfinity | NaN

fun js_minus :: "js_number \<Rightarrow> js_number \<Rightarrow> js_number" where
  "js_minus (Finite a) (Finite b) = Finite (a - b)"
| "js_minus (Finite a) PosInfinity = NegInfinity"
| "js_minus (Finite a) NegInfinity = PosInfinity"
| "js_minus PosInfinity (Finite b) = PosInfinity"
| "js_minus PosInfinity NegInfinity = PosInfinity"
| "js_minus NegInfinity (Finite b) = NegInfinity"
| "js_minus NegInfinity PosInfinity = NegInfinity"
| "js_minus PosInfinity PosInfinity = NaN"
| "js_minus NegInfinity NegInfinity = NaN"
| "js_minus NaN b = NaN"
| "js_minus a NaN = NaN"

definition or_Infinity :: "real option \<Rightarrow> js_number" where
  "or_Infinity d = (case d of None \<Rightarrow> PosInfinity | Some v \<Rightarrow> Finite v)"

definition compare_distance :: "Ranked \<Rightarrow> Ranked \<Rightarrow> js_number" where
  "compare_distance a b = js_minus (or_Infinity (distance a)) (or_Infinity (distance b))"

text \<open>
  \<open>Array.prototype.sort\<close> with a comparator: an element goes behind another exactly when
  the comparator's result for the pair is positive (a \<open>NaN\<close> result counts as \<open>0\<close>), and
  the sort is stable.  For a comparator that is a consistent ordering every such sort gives the
  same list; it is written here as insertion from the right.
\<close>

fun js_positive :: "js_number \<Rightarrow> bool" where
  "js_positive (Finite v) = (0 < v)"
| "js_positive PosInfinity = True"
| "js_positive NegInfinity = False"
| "js_positive NaN = False"

fun sort_insert :: "('a \<Rightarrow> 'a \<Rightarrow> js_number) \<Rightarrow> 'a \<Rightarrow> 'a list \<Rightarrow> 'a list" where
  "sort_insert cmp x [] = [x]"
| "sort_insert cmp x (y # ys) =
     (if js_positive (cmp x y) then y # sort_insert cmp x ys else x # y # ys)"

definition js_sort :: "('a \<Rightarrow> 'a \<Rightarrow> js_number) \<Rightarrow> 'a list \<Rightarrow> 'a list" where
  "js_sort cmp xs = foldr (sort_insert cmp) xs []"

definition with_distance :: "LocationCoords \<Rightarrow> Business \<Rightarrow> Ranked" where
  "with_distance loc b =
     (if truthy_number (latitude b) \<and> truthy_number (longitude b)
      then \<lparr> biz = b,
             distance = Some (getDistance loc
                \<lparr> lc_latitude = the (latitude b), lc_longitude = the (longitude b) \<rparr>) \<rparr>
      else \<lparr> biz = b, distance = None \<rparr>)"

definition within_radius :: "real \<Rightarrow> Ranked \<Rightarrow> bool" where
  "within_radius radius e = (case distance e of None \<Rightarrow> True | Some d \<Rightarrow> d \<le> radius)"

definition businessesWithDistance :: "app_state \<Rightarrow> Ranked list" where
  "businessesWithDistance s =
     (case location s of
        None \<Rightarrow> map (\<lambda>b. \<lparr> biz = b, distance = None \<rparr>) (businesses s)
      | Some loc \<Rightarrow>
          js_sort compare_distance
            (filter (within_radius (searchRadius s))
               (map (with_distance loc) (businesses s))))"

text \<open>The distance shown on a favorite's card (\<open>renderFavorites\<close>).\<close>

definition favorite_distance :: "app_state \<Rightarrow> Business \<Rightarrow> real option" where
  "favorite_distance s fav =
     (case location s of
        None \<Rightarrow> None
      | Some loc \<Rightarrow>
          if truthy_number (latitude fav) \<and> truthy_number (longitude fav)
          then Some (getDistance loc
                 \<lparr> lc_latitude = the (latitude fav), lc_longitude = the (longitude fav) \<rparr>)
          else None)"

subsection \<open>\<open>getDistance\<close> from the term the doubles have computed\<close>

text \<open>
  \<open>Math.sqrt\<close> of a negative number is \<open>NaN\<close>; \<open>Math.atan2\<close> and the multiplication give
  \<open>NaN\<close> when an argument is \<open>NaN\<close>.  (A zero is not signed here: \<open>atan2\<close> of a zero and
  \<open>-Infinity\<close> is taken as \<open>\<pi>\<close>.)
\<close>

fun js_sqrt :: "js_number \<Rightarrow> js_number" where
  "js_sqrt (Finite v) = (if v < 0 then NaN else Finite (sqrt v))"
| "js_sqrt PosInfinity = PosInfinity"
| "js_sqrt NegInfinity = NaN"
| "js_sqrt NaN = NaN"

fun js_atan2 :: "js_number \<Rightarrow> js_number \<Rightarrow> js_number" where
  "js_atan2 (Finite y) (Finite x) = Finite (atan2 y x)"
| "js_atan2 (Finite y) PosInfinity = Finite 0"
| "js_atan2 (Finite y) NegInfinity = (if 0 \<le> y then Finite pi else Finite (- pi))"
| "js_atan2 PosInfinity (Finite x) = Finite (pi / 2)"
| "js_atan2 PosInfinity PosInfinity = Finite (pi / 4)"
| "js_atan2 PosInfinity NegInfinity = Finite (3 * pi / 4)"
| "js_atan2 NegInfinity (Finite x) = Finite (- (pi / 2))"
| "js_atan2 NegInfinity PosInfinity = Finite (- (pi / 4))"
| "js_atan2 NegInfinity NegInfinity = Finite (- (3 * pi / 4))"
| "js_atan2 NaN x = NaN"
| "js_atan2 y NaN = NaN"

fun js_times :: "js_number \<Rightarrow> js_number \<Rightarrow> js_number" where
  "js_times (Finite a) (Finite b) = Finite (a * b)"
| "js_times (Finite a) PosInfinity =
     (if 0 < a then PosInfinity else if a < 0 then NegInfinity else NaN)"
| "js_times (Finite a) NegInfinity =
     (if 0 < a then NegInfinity else if a < 0 then PosInfinity else NaN)"
| "js_times PosInfinity (Finite b) =
     (if 0 < b then PosInfinity else if b < 0 then NegInfinity else NaN)"
| "js_times NegInfinity (Finite b) =
     (if 0 < b then NegInfinity else if b < 0 then PosInfinity else NaN)"
| "js_times PosInfinity PosInfinity = PosInfinity"
| "js_times PosInfinity NegInfinity = NegInfinity"
| "js_times NegInfinity PosInfinity = NegInfinity"
| "js_times NegInfinity NegInfinity = PosInfinity"
| "js_times NaN b = NaN"
| "js_times a NaN = NaN"

text \<open>The operator \<open>==\<close> on two numbers: \<open>NaN\<close> equals nothing, itself included.\<close>

definition js_equals :: "js_number \<Rightarrow> js_number \<Rightarrow> bool" where
  "js_equals a b \<longleftrightarrow> a \<noteq> NaN \<and> b \<noteq> NaN \<and> a = b"

text \<open>Lines 19 to 21 of \<open>getDistance\<close>, from the value that \<open>a\<close> has.\<close>

definition getDistance_from_a :: "js_number \<Rightarrow> js_number" where
  "getDistance_from_a a =
     (let R = Finite 6371;
          c = js_times (Finite 2) (js_atan2 (js_sqrt a) (js_sqrt (js_minus (Finite 1) a)));
          d = js_times R c
      in d)"

subsection \<open>Ordering of distances\<close>

text \<open>
  The order the ranking is measured against: an undefined distance counts as infinite, so
  it is above every defined one.
\<close>

definition distance_le :: "real option \<Rightarrow> real option \<Rightarrow> bool" where
  "distance_le a b =
     (case b of None \<Rightarrow> True | Some y \<Rightarrow> (case a of None \<Rightarrow> False | Some x \<Rightarrow> x \<le> y))"

abbreviation by_distance :: "Ranked \<Rightarrow> Ranked \<Rightarrow> bool" where
  "by_distance a b \<equiv> distance_le (distance a) (distance b)"

text \<open>The invariant of the favorites store, on the list in memory and on the persisted copy.\<close>

definition unique_placeIds :: "Business list \<Rightarrow> bool" where
  "unique_placeIds fs = distinct (map placeId fs)"

definition favorites_invariant :: "app_state \<Rightarrow> bool" where
  "favorites_invariant s =
     (unique_placeIds (favorites s) \<and>
      (case localStorage_favoriteBusinesses s of
         StoredList fs \<Rightarrow> unique_placeIds fs
       | _ \<Rightarrow> True))"

subsection \<open>The operations of the favorites store\<close>

datatype favorites_operation = Load | Toggle Business | IsFavorite Business

text \<open>The state after an operation, and the answer of a query.\<close>

fun run_operation :: "app_state \<Rightarrow> favorites_operation \<Rightarrow> app_state \<times> bool option" where
  "run_operation s Load = (load_favorites s, None)"
| "run_operation s (Toggle business) = (toggleFavorite s business, None)"
| "run_operation s (IsFavorite business) = (s, Some (isFavorite s business))"

fun run_operations :: "app_state \<Rightarrow> favorites_operation list \<Rightarrow> app_state" where
  "run_operations s [] = s"
| "run_operations s (operation # rest) = run_operations (fst (run_operation s operation)) rest"

section \<open>Example data\<close>

text \<open>Two records that share the place identifier \<open>abc\<close>, and one with another identifier.\<close>

definition first_abc :: Business where
  "first_abc = \<lparr> title = ''First'', uri = ''https://maps.example/first'', placeId = ''abc'',
                  latitude = None, longitude = None \<rparr>"

definition second_abc :: Business where
  "second_abc = \<lparr> title = ''Second'', uri = ''https://maps.example/second'', placeId = ''abc'',
                   latitude = None, longitude = None \<rparr>"

definition other_xyz :: Business where
  "other_xyz = \<lparr> title = ''Other'', uri = ''https://maps.example/other'', placeId = ''xyz'',
                  latitude = None, longitude = None \<rparr>"

text \<open>
  A user at 40 degrees north, 74 degrees west, with one business at the same point, one on
  the same meridian at 40 degrees south, and one on the equator.
\<close>

definition here :: LocationCoords where
  "here = \<lparr> lc_latitude = 40, lc_longitude = - 74 \<rparr>"

definition near_biz :: Business where
  "near_biz = \<lparr> title = ''Near'', uri = ''https://maps.example/near'', placeId = ''near'',
                 latitude = Some 40, longitude = Some (- 74) \<rparr>"

definition far_biz :: Business where
  "far_biz = \<lparr> title = ''Far'', uri = ''https://maps.example/far'', placeId = ''far'',
                latitude = Some (- 40), longitude = Some (- 74) \<rparr>"

definition equator_biz :: Business where
  "equator_biz = \<lparr> title = ''Equator'', uri = ''https://maps.example/equator'',
                    placeId = ''equator'', latitude = Some 0, longitude = Some 106 \<rparr>"

definition scenario_state :: app_state where
  "scenario_state =
     \<lparr> searchTerm = ''coffee shops'', manualLocation = [],
       businesses = [equator_biz, far_biz, other_xyz, near_biz],
       favorites = [first_abc], isLoading = False, error = None, location = Some here,
       locationError = None, selectedBusiness = None, searchRadius = 10,
       localStorage_favoriteBusinesses = StoredList [first_abc] \<rparr>"

text \<open>
  A user on the equator, a quarter of the way round it from the business on the equator.
\<close>

definition equator_state :: app_state where
  "equator_state =
     \<lparr> searchTerm = ''coffee shops'', manualLocation = [],
       businesses = [equator_biz],
       favorites = [], isLoading = False, error = None,
       location = Some \<lparr> lc_latitude = 0, lc_longitude = 16 \<rparr>,
       locationError = None, selectedBusiness = None, searchRadius = 10,
       localStorage_favoriteBusinesses = Absent \<rparr>"

text \<open>A fresh component, and one with a category but only blanks as manual location.\<close>

definition blank_state :: app_state where
  "blank_state = initial_state Absent"

definition unlocated_state :: app_state where
  "unlocated_state = (initial_state Absent)\<lparr>searchTerm := ''pizza'', manualLocation := ''  ''\<rparr>"

text \<open>A service without an API key, and one whose answers carry no business.\<close>

definition no_answer :: "request \<Rightarrow> GenerateContentResponse outcome" where
  "no_answer r = Returns \<lparr> resp_text = NoText, groundingChunks = None \<rparr>"

definition same_text :: "string \<Rightarrow> string" where
  "same_text t = t"

definition keyless_env :: environment where
  "keyless_env =
     \<lparr> API_KEY = None, generateContent = no_answer, encodeURIComponent = same_text \<rparr>"

definition empty_env :: environment where
  "empty_env =
     \<lparr> API_KEY = Some ''key'', generateContent = no_answer, encodeURIComponent = same_text \<rparr>"

section \<open>Properties of the built-ins\<close>

subsection \<open>\<open>Map\<close>\<close>



lemma keys_map_set:
  "map fst (map_set m k v) = (if k \<in> fst ` set m then map fst m else map fst m @ [k])"
  by (induction m k v rule: map_set.induct) auto

lemma map_of_map_set:
  "map_of (map_set m k v) = (map_of m)(k \<mapsto> v)"
  by (induction m k v rule: map_set.induct) auto

lemma remdups_append_mem:
  "k \<in> set ys \<Longrightarrow> remdups (xs @ k # ys) = remdups (xs @ ys)"
  by (induction xs) auto

lemma keys_map_add_entries:
  "map fst (map_add_entries m es) = rev (remdups (rev (map fst m @ map fst es)))" if "distinct (map fst m)"
  using that
proof (induction m es rule: map_add_entries.induct)
  case (1 m)
  then show ?case by (simp add: distinct_remdups_id)
next
  case (2 m k v es)
  have d: "distinct (map fst (map_set m k v))"
    using 2(2) by (auto simp: keys_map_set)
  show ?case
    using 2(1)[OF d] by (auto simp: keys_map_set rev_map remdups_append_mem)
qed

lemma map_of_map_add_entries:
  "map_of (map_add_entries m es) = map_of m ++ map_of (rev es)"
proof (induction m es rule: map_add_entries.induct)
  case (1 m)
  show ?case by simp
next
  case (2 m k v es)
  have "map_of (map_add_entries (map_set m k v) es) = (map_of m)(k \<mapsto> v) ++ map_of (rev es)"
    using 2 by (simp only: map_of_map_set)
  also have "(map_of m)(k \<mapsto> v) = map_of m ++ [k \<mapsto> v]"
    by simp
  also have "map_of m ++ [k \<mapsto> v] ++ map_of (rev es) = map_of m ++ map_of (rev ((k, v) # es))"
    by (simp del: map_add_upd)
  finally show ?case by simp
qed

lemma map_of_rev_last:
  "map_of (rev (map (\<lambda>x. (f x, x)) xs)) k =
     (if k \<in> f ` set xs then Some (last (filter (\<lambda>x. f x = k) xs)) else None)"
  by (induction xs rule: rev_induct) auto

lemma keys_new_Map: "map fst (new_Map es) = rev (remdups (rev (map fst es)))"
  unfolding new_Map_def using keys_map_add_entries [of "[]" es] by simp

lemma set_map_set: "set (map_set m k v) \<subseteq> insert (k, v) (set m)"
  by (induction m k v rule: map_set.induct) auto

lemma set_map_add_entries: "set (map_add_entries m es) \<subseteq> set m \<union> set es"
proof (induction m es rule: map_add_entries.induct)
  case (1 m)
  show ?case by simp
next
  case (2 m k v es)
  then show ?case using set_map_set [of m k v] by auto
qed

lemma new_Map_keyed:
  "map f (map_values (new_Map (map (\<lambda>x. (f x, x)) xs))) = map fst (new_Map (map (\<lambda>x. (f x, x)) xs))"
proof -
  have "\<forall>e \<in> set (new_Map (map (\<lambda>x. (f x, x)) xs)). f (snd e) = fst e"
    using set_map_add_entries [of "[]" "map (\<lambda>x. (f x, x)) xs"]
    by (auto simp: new_Map_def)
  then show ?thesis
    by (simp add: map_values_def)
qed

lemma uniqueBusinesses_ids:
  "map placeId (uniqueBusinesses bs) = rev (remdups (rev (map placeId bs)))"
proof -
  have "map placeId (uniqueBusinesses bs) = map fst (new_Map (map (\<lambda>x. (placeId x, x)) bs))"
    unfolding uniqueBusinesses_def by (rule new_Map_keyed)
  also have "\<dots> = rev (remdups (rev (map fst (map (\<lambda>x. (placeId x, x)) bs))))"
    by (rule keys_new_Map)
  also have "map fst (map (\<lambda>x. (placeId x, x)) bs) = map placeId bs"
    by (simp add: comp_def)
  finally show ?thesis .
qed

lemma uniqueBusinesses_last:
  assumes "e \<in> set (uniqueBusinesses bs)"
  shows "e = last (filter (\<lambda>x. placeId x = placeId e) bs)"
proof -
  let ?es = "map (\<lambda>x. (placeId x, x)) bs"
  have d: "distinct (map fst (new_Map ?es))"
    by (simp add: keys_new_Map)
  from assms obtain k where k: "(k, e) \<in> set (new_Map ?es)"
    by (auto simp: uniqueBusinesses_def map_values_def)
  then have "(k, e) \<in> set ?es"
    using set_map_add_entries [of "[]" ?es] by (auto simp: new_Map_def)
  then have ke: "k = placeId e" and mem: "placeId e \<in> placeId ` set bs"
    by auto
  from d k have "map_of (new_Map ?es) k = Some e"
    by simp
  then have "map_of (rev ?es) (placeId e) = Some e"
    by (simp add: new_Map_def map_of_map_add_entries ke)
  then show ?thesis
    using mem by (simp add: map_of_rev_last)
qed

subsection \<open>The haversine formula, in exact arithmetic\<close>


lemma sin_half_sq_swap:
  "sin ((b - a) * k / 2) * sin ((b - a) * k / 2) = sin ((a - b) * k / 2) * sin ((a - b) * k / 2)"
  for a b k :: real
proof -
  have e: "(b - a) * k / 2 = - ((a - b) * k / 2)"
    by (simp add: field_simps)
  show ?thesis
    unfolding e sin_minus by simp
qed

lemma haversine_a_sym: "haversine_a A B = haversine_a B A"
proof -
  have "cos (lc_latitude A * (pi / 180)) * cos (lc_latitude B * (pi / 180)) =
        cos (lc_latitude B * (pi / 180)) * cos (lc_latitude A * (pi / 180))"
    by (rule mult.commute)
  then show ?thesis
    unfolding haversine_a_def Let_def
    using sin_half_sq_swap [of "lc_latitude B" "lc_latitude A" "pi / 180"]
          sin_half_sq_swap [of "lc_longitude B" "lc_longitude A" "pi / 180"]
    by (simp only: mult.assoc)
qed

lemma getDistance_sym: "getDistance A B = getDistance B A"
  by (simp add: getDistance_def haversine_a_sym)

lemma haversine_a_self: "haversine_a A A = 0"
  by (simp add: haversine_a_def)

lemma getDistance_self: "getDistance A A = 0"
  by (simp add: getDistance_def haversine_a_self atan2_def)

lemma sin_sq_bounds: "0 \<le> sin x * sin x" "sin x * sin x \<le> 1" for x :: real
proof -
  show "0 \<le> sin x * sin x" by simp
  have "(sin x)\<^sup>2 \<le> 1" using sin_cos_squared_add [of x] zero_le_power2 [of "cos x"] by linarith
  then show "sin x * sin x \<le> 1" by (simp add: power2_eq_square)
qed

lemma cos_cos_half:
  "cos p * cos q = (1 + cos (p + q)) / 2 - sin ((q - p) / 2) * sin ((q - p) / 2)" for p q :: real
proof -
  have "2 * ((q - p) / 2) = q - p"
    by simp
  then have "cos (q - p) = 1 - 2 * (sin ((q - p) / 2))\<^sup>2"
    using cos_double_sin [of "(q - p) / 2"] by (simp only:)
  moreover have "cos p * cos q = (cos (q - p) + cos (p + q)) / 2"
    using cos_times_cos [of q p] by (simp add: mult.commute add.commute)
  ultimately show ?thesis
    by (simp add: power2_eq_square field_simps)
qed

lemma convex_bounds:
  fixes u v w :: real
  assumes "0 \<le> u" "u \<le> 1" "0 \<le> v" "v \<le> 1" "0 \<le> w" "w \<le> 1"
  shows "0 \<le> u * (1 - v) + w * v" "u * (1 - v) + w * v \<le> 1"
proof -
  have a: "0 \<le> u * (1 - v)" using assms by simp
  have b: "0 \<le> w * v" using assms by simp
  from a b show "0 \<le> u * (1 - v) + w * v" by simp
  have "u * (1 - v) \<le> 1 * (1 - v)" using assms by (intro mult_right_mono) simp_all
  moreover have "w * v \<le> 1 * v" using assms by (intro mult_right_mono) simp_all
  ultimately show "u * (1 - v) + w * v \<le> 1" by simp
qed

lemma haversine_a_bounds: "0 \<le> haversine_a A B" "haversine_a A B \<le> 1"
proof -
  define p where "p = lc_latitude A * (pi / 180)"
  define q where "q = lc_latitude B * (pi / 180)"
  define u where "u = sin ((q - p) / 2) * sin ((q - p) / 2)"
  define v where "v = sin ((lc_longitude B - lc_longitude A) * (pi / 180) / 2) *
                      sin ((lc_longitude B - lc_longitude A) * (pi / 180) / 2)"
  define w where "w = (1 + cos (p + q)) / 2"
  have dl: "(lc_latitude B - lc_latitude A) * (pi / 180) = q - p"
    by (simp add: p_def q_def left_diff_distrib)
  have "haversine_a A B = u + cos p * cos q * v"
    unfolding haversine_a_def Let_def dl by (simp add: u_def v_def p_def q_def mult.assoc)
  also have "cos p * cos q = w - u"
    unfolding w_def u_def by (rule cos_cos_half)
  finally have eq: "haversine_a A B = u * (1 - v) + w * v"
    by (simp add: algebra_simps)
  have bu: "0 \<le> u" "u \<le> 1" unfolding u_def by (rule sin_sq_bounds)+
  have bv: "0 \<le> v" "v \<le> 1" unfolding v_def by (rule sin_sq_bounds)+
  have bw: "0 \<le> w" "w \<le> 1"
  proof -
    have g: "0 \<le> (1 + c) / 2 \<and> (1 + c) / 2 \<le> 1" if "- 1 \<le> c" "c \<le> 1" for c :: real
      using that by auto
    show "0 \<le> w" "w \<le> 1"
      unfolding w_def using g [OF cos_ge_minus_one cos_le_one, of "p + q"] by blast+
  qed
  show "0 \<le> haversine_a A B" "haversine_a A B \<le> 1"
    unfolding eq using convex_bounds [OF bu bv bw] by simp_all
qed

lemma getDistance_meridian:
  assumes "0 \<le> p" "p < 90"
  shows "getDistance \<lparr> lc_latitude = p, lc_longitude = l \<rparr>
                     \<lparr> lc_latitude = - p, lc_longitude = l \<rparr> = 6371 * (2 * (p * (pi / 180)))"
proof -
  define x where "x = p * (pi / 180)"
  have x: "0 \<le> x" "x < pi / 2"
    using assms by (simp_all add: x_def field_simps)
  have s: "0 \<le> sin x"
    using x by (intro sin_ge_zero) simp_all
  have c: "0 < cos x"
    using x by (intro cos_gt_zero_pi) simp_all
  have "(- p - p) * (pi / 180) / 2 = - x"
    by (simp add: x_def field_simps)
  then have a: "haversine_a \<lparr> lc_latitude = p, lc_longitude = l \<rparr>
                   \<lparr> lc_latitude = - p, lc_longitude = l \<rparr> = (sin x)\<^sup>2"
    by (simp add: haversine_a_def power2_eq_square)
  have "1 - (sin x)\<^sup>2 = (cos x)\<^sup>2"
    using sin_cos_squared_add [of x] by linarith
  then have q: "sqrt (1 - (sin x)\<^sup>2) = cos x"
    using c by simp
  have r: "sqrt ((sin x)\<^sup>2) = sin x"
    using s by simp
  have "arctan (sin x / cos x) = x"
    using arctan_tan [of x] x by (simp add: tan_def)
  then have t: "atan2 (sin x) (cos x) = x"
    using c by (simp add: atan2_def)
  show ?thesis
    unfolding getDistance_def Let_def a r q t by (simp add: x_def)
qed

lemma getDistance_quarter:
  "getDistance \<lparr> lc_latitude = 0, lc_longitude = l \<rparr>
               \<lparr> lc_latitude = 0, lc_longitude = l + 90 \<rparr> = 6371 * (pi / 2)"
proof -
  have "90 * (pi / 180) / 2 = pi / 4"
    by simp
  then have a: "haversine_a \<lparr> lc_latitude = 0, lc_longitude = l \<rparr>
                   \<lparr> lc_latitude = 0, lc_longitude = l + 90 \<rparr> = 1 / 2"
    by (simp add: haversine_a_def sin_45)
  have h: "(1::real) - 1 / 2 = 1 / 2"
    by simp
  have p: "0 < sqrt (1 / 2 :: real)"
    by simp
  show ?thesis
    unfolding getDistance_def Let_def a h atan2_def using p by (simp add: arctan_one)
qed

lemma getDistance_from_a_exact:
  "getDistance_from_a (Finite (haversine_a A B)) = Finite (getDistance A B)"
  using haversine_a_bounds [of A B]
  by (simp add: getDistance_from_a_def getDistance_def Let_def)

lemma getDistance_from_a_NaN:
  "getDistance_from_a (Finite a) = NaN \<longleftrightarrow> a < 0 \<or> 1 < a"
  by (auto simp: getDistance_from_a_def)

subsection \<open>Sorting by distance\<close>

lemma js_positive_compare_distance:
  "js_positive (compare_distance a b) \<longleftrightarrow> \<not> distance_le (distance a) (distance b)"
  by (auto simp: compare_distance_def or_Infinity_def distance_le_def split: option.splits)

lemma distance_le_refl: "distance_le a a"
  by (simp add: distance_le_def split: option.splits)

lemma distance_le_trans: "distance_le a b \<Longrightarrow> distance_le b c \<Longrightarrow> distance_le a c"
  by (auto simp: distance_le_def split: option.splits)

lemma distance_le_total: "distance_le a b \<or> distance_le b a"
  by (auto simp: distance_le_def split: option.splits)

lemma set_sort_insert: "set (sort_insert cmp x ys) = insert x (set ys)"
  by (induction ys) auto

lemma set_js_sort: "set (js_sort cmp xs) = set xs"
  by (induction xs) (simp_all add: js_sort_def set_sort_insert)

lemma length_sort_insert: "length (sort_insert cmp x ys) = Suc (length ys)"
  by (induction ys) auto

lemma length_js_sort: "length (js_sort cmp xs) = length xs"
  by (induction xs) (simp_all add: js_sort_def length_sort_insert)

lemma sorted_sort_insert:
  "sorted_wrt by_distance ys \<Longrightarrow> sorted_wrt by_distance (sort_insert compare_distance x ys)"
proof (induction ys)
  case Nil
  show ?case by simp
next
  case (Cons y ys)
  show ?case
  proof (cases "js_positive (compare_distance x y)")
    case True
    then have "by_distance y x"
      using distance_le_total [of "distance x" "distance y"]
      by (simp add: js_positive_compare_distance)
    with Cons True show ?thesis
      by (auto simp: set_sort_insert)
  next
    case False
    then have xy: "by_distance x y"
      by (simp add: js_positive_compare_distance)
    with Cons.prems False show ?thesis
      by (auto intro: distance_le_trans)
  qed
qed

lemma sorted_js_sort: "sorted_wrt by_distance (js_sort compare_distance xs)"
proof (induction xs)
  case Nil
  show ?case by (simp add: js_sort_def)
next
  case (Cons x xs)
  then show ?case
    using sorted_sort_insert [of "js_sort compare_distance xs" x] by (simp add: js_sort_def)
qed

lemma filter_sort_insert:
  "filter (\<lambda>e. distance e = k) (sort_insert compare_distance x ys) =
     (if distance x = k then x # filter (\<lambda>e. distance e = k) ys
      else filter (\<lambda>e. distance e = k) ys)"
proof (induction ys)
  case Nil
  show ?case by simp
next
  case (Cons y ys)
  have "distance y \<noteq> distance x" if "js_positive (compare_distance x y)"
    using that distance_le_refl [of "distance x"] by (auto simp: js_positive_compare_distance)
  with Cons show ?case
    by auto
qed

lemma js_sort_stable:
  "filter (\<lambda>e. distance e = k) (js_sort compare_distance xs) = filter (\<lambda>e. distance e = k) xs"
  by (induction xs) (simp_all add: js_sort_def filter_sort_insert)

section \<open>Deduplication of the lookup's result\<close>

lemma findNearbyBusinesses_unique:
  assumes "findNearbyBusinesses env category loc ml = Inr result"
  shows "\<exists>req response raw.
           build_request category loc ml = Inr req \<and>
           generateContent env req = Returns response \<and>
           read_response env loc response = Inr raw \<and>
           result = uniqueBusinesses raw"
  using assms
  by (auto simp: findNearbyBusinesses_def findNearbyBusinesses_try_def
           split: sum.splits thrown.splits outcome.splits if_splits)

text \<open>
  C1, as the code has it.  The list that \<open>findNearbyBusinesses\<close> returns has exactly one
  entry for each place identifier of the list read from the response, in the order in which the
  identifiers first appear.  The entry kept for an identifier is the \<^emph>\<open>last\<close> record of the
  input with that identifier: a \<open>Map\<close> keeps the position of a key that is set again and
  replaces its value.
\<close>

theorem uniqueBusinesses_keeps_last_data:
  "map placeId (uniqueBusinesses bs) = rev (remdups (rev (map placeId bs))) \<and>
   distinct (map placeId (uniqueBusinesses bs)) \<and>
   set (map placeId (uniqueBusinesses bs)) = set (map placeId bs) \<and>
   (\<forall>e \<in> set (uniqueBusinesses bs). e = last (filter (\<lambda>x. placeId x = placeId e) bs))"
proof -
  have ids: "map placeId (uniqueBusinesses bs) = rev (remdups (rev (map placeId bs)))"
    by (rule uniqueBusinesses_ids)
  have "distinct (map placeId (uniqueBusinesses bs))"
    unfolding ids by simp
  moreover have "set (map placeId (uniqueBusinesses bs)) = set (map placeId bs)"
    unfolding ids by simp
  ultimately show ?thesis
    using ids uniqueBusinesses_last by blast
qed

theorem uniqueBusinesses_keeps_last_data_witness:
  "uniqueBusinesses [first_abc, other_xyz, second_abc] = [second_abc, other_xyz] \<and>
   second_abc \<in> set (uniqueBusinesses [first_abc, other_xyz, second_abc]) \<and>
   second_abc =
     last (filter (\<lambda>x. placeId x = placeId second_abc) [first_abc, other_xyz, second_abc])"
  using uniqueBusinesses_keeps_last_data [of "[first_abc, other_xyz, second_abc]"]
  by (simp add: uniqueBusinesses_def new_Map_def map_values_def first_abc_def second_abc_def
        other_xyz_def)

text \<open>
  C1 as the specification words it (the first occurrence's data is kept) fails on the
  specification's own scenario: of two entries with the identifier \<open>abc\<close>, the second one's
  title survives.
\<close>

theorem uniqueBusinesses_first_data_counterexample:
  "uniqueBusinesses [first_abc, second_abc] = [second_abc] \<and>
   title second_abc \<noteq> title first_abc"
  by (simp add: uniqueBusinesses_def new_Map_def map_values_def first_abc_def second_abc_def)

section \<open>The distance calculator\<close>

text \<open>
  C4.  In exact arithmetic \<open>getDistance\<close> is symmetric and is \<open>0\<close> from a point to itself
  (\<open>getDistance_sym\<close>, \<open>getDistance_self\<close>), and the term \<open>a\<close> never exceeds 1
  (\<open>haversine_a_bounds\<close>).  The code computes in doubles and does not clamp \<open>a\<close>.  For the
  points at latitude 82, longitude 0 and at latitude -82, longitude 180, the doubles give
  \<open>a = 1.0000000000000002\<close>, which is \<open>1 + 2\<^sup>-\<^sup>5\<^sup>2\<close>, in either order of the arguments.
  From that value lines 19 to 21 return \<open>NaN\<close>, the square root of \<open>1 - a\<close> being \<open>NaN\<close>, and
  the comparison of the two results with \<open>==\<close> is false.
\<close>

theorem getDistance_NaN_when_a_exceeds_1:
  "getDistance_from_a (Finite (1 + 1 / 2 ^ 52)) = NaN \<and>
   \<not> js_equals (getDistance_from_a (Finite (1 + 1 / 2 ^ 52)))
                (getDistance_from_a (Finite (1 + 1 / 2 ^ 52)))"
  by (simp add: getDistance_from_a_def js_equals_def)

section \<open>The result ranker\<close>

lemma with_distance_cases:
  "(\<not> (truthy_number (latitude b) \<and> truthy_number (longitude b)) \<and>
      with_distance loc b = \<lparr> biz = b, distance = None \<rparr>) \<or>
   (\<exists>lat lon. latitude b = Some lat \<and> longitude b = Some lon \<and> lat \<noteq> 0 \<and> lon \<noteq> 0 \<and>
      with_distance loc b =
        \<lparr> biz = b, distance = Some (getDistance loc \<lparr> lc_latitude = lat, lc_longitude = lon \<rparr>) \<rparr>)"
  by (auto simp: with_distance_def truthy_number_def split: option.splits)

lemma set_businessesWithDistance:
  "location s = Some loc \<Longrightarrow>
   set (businessesWithDistance s) =
     {e \<in> with_distance loc ` set (businesses s). within_radius (searchRadius s) e}"
  by (auto simp: businessesWithDistance_def set_js_sort)

lemma businessesWithDistance_scenario:
  "businessesWithDistance scenario_state =
     [\<lparr> biz = near_biz, distance = Some 0 \<rparr>,
      \<lparr> biz = equator_biz, distance = None \<rparr>,
      \<lparr> biz = other_xyz, distance = None \<rparr>]"
  using getDistance_meridian [of 40 "- 74"] getDistance_self [of here] pi_ge_two
  apply (simp add: businessesWithDistance_def scenario_state_def with_distance_def
      truthy_number_def equator_biz_def far_biz_def other_xyz_def near_biz_def within_radius_def
      js_sort_def compare_distance_def or_Infinity_def)
  apply (simp add: here_def)
  done

lemma sorted_wrt_None_trailing:
  assumes "sorted_wrt by_distance out" "i < j" "j < length out" "distance (out ! i) = None"
  shows "distance (out ! j) = None"
proof -
  from assms(1-3) have "by_distance (out ! i) (out ! j)"
    by (simp add: sorted_wrt_iff_nth_less)
  with assms(4) show ?thesis
    by (simp add: distance_le_def split: option.splits)
qed

lemma biz_with_distance: "biz (with_distance loc b) = b"
  by (simp add: with_distance_def)

lemma subseq_equal_distance:
  "subseq (map biz (filter (\<lambda>e. distance e = k) (businessesWithDistance s))) (businesses s)"
proof (cases "location s")
  case None
  have "subseq (map biz (filter (\<lambda>e. distance e = k)
                  (map (\<lambda>b. \<lparr> biz = b, distance = None \<rparr>) (businesses s))))
               (map biz (map (\<lambda>b. \<lparr> biz = b, distance = None \<rparr>) (businesses s)))"
    by (intro subseq_map subseq_filter_left)
  then show ?thesis
    using None by (simp add: businessesWithDistance_def comp_def)
next
  case (Some loc)
  let ?c = "map (with_distance loc) (businesses s)"
  have "subseq (filter (\<lambda>e. distance e = k) (filter (within_radius (searchRadius s)) ?c)) ?c"
    by (meson subseq_filter_left subseq_order.order_trans)
  then have "subseq (map biz (filter (\<lambda>e. distance e = k) (filter (within_radius (searchRadius s)) ?c)))
                    (map biz ?c)"
    by (rule subseq_map)
  moreover have "map biz ?c = businesses s"
    by (simp add: comp_def biz_with_distance)
  ultimately show ?thesis
    using Some by (simp add: businessesWithDistance_def js_sort_stable)
qed

lemma sorted_businessesWithDistance: "sorted_wrt by_distance (businessesWithDistance s)"
proof (cases "location s")
  case None
  have "sorted_wrt by_distance (map (\<lambda>b. \<lparr> biz = b, distance = None \<rparr>) bs)" for bs
    by (induction bs) (auto simp: distance_le_def)
  with None show ?thesis
    by (simp add: businessesWithDistance_def)
next
  case (Some loc)
  then show ?thesis
    by (simp add: businessesWithDistance_def sorted_js_sort)
qed

text \<open>
  C2, as the code has it.  With a current location, every entry the ranker keeps comes from
  the business list, and either its business has a latitude or a longitude that is missing or
  \<open>0\<close> and the entry has no distance, or both coordinates are there and not \<open>0\<close>, the entry
  carries the haversine distance from the location to them, and that distance is at most the
  radius.  Every business of the first kind is kept, whatever the radius is; a business of the
  second kind is kept exactly when its distance is at most the radius.
\<close>

theorem ranker_keeps_within_radius:
  assumes "location s = Some loc"
  shows "(\<forall>e \<in> set (businessesWithDistance s).
            biz e \<in> set (businesses s) \<and>
            ((distance e = None \<and>
              (latitude (biz e) = None \<or> longitude (biz e) = None \<or>
               latitude (biz e) = Some 0 \<or> longitude (biz e) = Some 0)) \<or>
             (\<exists>lat lon.
                latitude (biz e) = Some lat \<and> longitude (biz e) = Some lon \<and>
                lat \<noteq> 0 \<and> lon \<noteq> 0 \<and>
                distance e = Some (getDistance loc \<lparr> lc_latitude = lat, lc_longitude = lon \<rparr>) \<and>
                getDistance loc \<lparr> lc_latitude = lat, lc_longitude = lon \<rparr> \<le> searchRadius s))) \<and>
         (\<forall>b \<in> set (businesses s).
            latitude b = None \<or> longitude b = None \<or>
            latitude b = Some 0 \<or> longitude b = Some 0 \<longrightarrow>
            \<lparr> biz = b, distance = None \<rparr> \<in> set (businessesWithDistance s)) \<and>
         (\<forall>b \<in> set (businesses s). \<forall>lat lon.
            latitude b = Some lat \<and> longitude b = Some lon \<and> lat \<noteq> 0 \<and> lon \<noteq> 0 \<longrightarrow>
            (\<lparr> biz = b,
               distance = Some (getDistance loc \<lparr> lc_latitude = lat, lc_longitude = lon \<rparr>) \<rparr>
               \<in> set (businessesWithDistance s)
             \<longleftrightarrow> getDistance loc \<lparr> lc_latitude = lat, lc_longitude = lon \<rparr> \<le> searchRadius s))"
proof (intro conjI ballI allI impI)
  fix e
  assume "e \<in> set (businessesWithDistance s)"
  then obtain b where b: "b \<in> set (businesses s)" "e = with_distance loc b"
    and r: "within_radius (searchRadius s) e"
    using set_businessesWithDistance [OF assms] by auto
  from b(1) show "biz e \<in> set (businesses s)"
    by (simp add: b(2) biz_with_distance)
  from with_distance_cases [of b loc] b r
  show "(distance e = None \<and>
          (latitude (biz e) = None \<or> longitude (biz e) = None \<or>
           latitude (biz e) = Some 0 \<or> longitude (biz e) = Some 0)) \<or>
        (\<exists>lat lon.
           latitude (biz e) = Some lat \<and> longitude (biz e) = Some lon \<and>
           lat \<noteq> 0 \<and> lon \<noteq> 0 \<and>
           distance e = Some (getDistance loc \<lparr> lc_latitude = lat, lc_longitude = lon \<rparr>) \<and>
           getDistance loc \<lparr> lc_latitude = lat, lc_longitude = lon \<rparr> \<le> searchRadius s)"
    by (auto simp: within_radius_def truthy_number_def split: option.splits)
next
  fix b
  assume b: "b \<in> set (businesses s)"
    and z: "latitude b = None \<or> longitude b = None \<or> latitude b = Some 0 \<or> longitude b = Some 0"
  from z have "with_distance loc b = \<lparr> biz = b, distance = None \<rparr>"
    by (auto simp: with_distance_def truthy_number_def)
  with b show "\<lparr> biz = b, distance = None \<rparr> \<in> set (businessesWithDistance s)"
    by (force simp: set_businessesWithDistance [OF assms] within_radius_def)
next
  fix b lat lon
  assume b: "b \<in> set (businesses s)"
    and c: "latitude b = Some lat \<and> longitude b = Some lon \<and> lat \<noteq> 0 \<and> lon \<noteq> 0"
  let ?e = "\<lparr> biz = b,
              distance = Some (getDistance loc \<lparr> lc_latitude = lat, lc_longitude = lon \<rparr>) \<rparr>"
  from c have w: "with_distance loc b = ?e"
    by (simp add: with_distance_def truthy_number_def)
  have "?e \<in> with_distance loc ` set (businesses s)"
    using b w by (metis imageI)
  then show "?e \<in> set (businessesWithDistance s)
             \<longleftrightarrow> getDistance loc \<lparr> lc_latitude = lat, lc_longitude = lon \<rparr> \<le> searchRadius s"
    by (simp add: set_businessesWithDistance [OF assms] within_radius_def)
qed

theorem ranker_keeps_within_radius_witness:
  "location scenario_state = Some here \<and>
   businesses scenario_state = [equator_biz, far_biz, other_xyz, near_biz] \<and>
   \<lparr> biz = near_biz, distance = Some 0 \<rparr> \<in> set (businessesWithDistance scenario_state) \<and>
   latitude near_biz = Some 40 \<and> longitude near_biz = Some (- 74) \<and>
   getDistance here \<lparr> lc_latitude = 40, lc_longitude = - 74 \<rparr> \<le> searchRadius scenario_state \<and>
   latitude far_biz = Some (- 40) \<and> longitude far_biz = Some (- 74) \<and>
   \<not> getDistance here \<lparr> lc_latitude = - 40, lc_longitude = - 74 \<rparr> \<le> searchRadius scenario_state \<and>
   \<lparr> biz = far_biz,
     distance = Some (getDistance here \<lparr> lc_latitude = - 40, lc_longitude = - 74 \<rparr>) \<rparr>
     \<notin> set (businessesWithDistance scenario_state) \<and>
   latitude other_xyz = None \<and>
   \<lparr> biz = other_xyz, distance = None \<rparr> \<in> set (businessesWithDistance scenario_state)"
proof -
  have l: "location scenario_state = Some here"
    by (simp add: scenario_state_def)
  have bs: "businesses scenario_state = [equator_biz, far_biz, other_xyz, near_biz]"
    by (simp add: scenario_state_def)
  have n: "latitude near_biz = Some 40 \<and> longitude near_biz = Some (- 74)"
    by (simp add: near_biz_def)
  have f: "latitude far_biz = Some (- 40) \<and> longitude far_biz = Some (- 74)"
    by (simp add: far_biz_def)
  have o: "latitude other_xyz = None"
    by (simp add: other_xyz_def)
  have dn: "getDistance here \<lparr> lc_latitude = 40, lc_longitude = - 74 \<rparr> = 0"
    using getDistance_self [of here] by (simp add: here_def)
  have df: "\<not> getDistance here \<lparr> lc_latitude = - 40, lc_longitude = - 74 \<rparr>
              \<le> searchRadius scenario_state"
    using getDistance_meridian [of 40 "- 74"] pi_ge_two
    by (simp add: here_def scenario_state_def)
  have r: "searchRadius scenario_state = 10"
    by (simp add: scenario_state_def)
  from ranker_keeps_within_radius [OF l] bs n f o dn df r l show ?thesis
    by simp
qed

text \<open>
  C2 as the specification words it fails for a business on the equator: it has both
  coordinates, it is a quarter of the globe away from the user, and it is kept at a radius of
  10 km.
\<close>

theorem ranker_keeps_far_equator_counterexample:
  "location equator_state = Some \<lparr> lc_latitude = 0, lc_longitude = 16 \<rparr> \<and>
   searchRadius equator_state = 10 \<and>
   latitude equator_biz = Some 0 \<and> longitude equator_biz = Some 106 \<and>
   getDistance \<lparr> lc_latitude = 0, lc_longitude = 16 \<rparr> \<lparr> lc_latitude = 0, lc_longitude = 106 \<rparr>
     = 6371 * (pi / 2) \<and>
   \<not> getDistance \<lparr> lc_latitude = 0, lc_longitude = 16 \<rparr> \<lparr> lc_latitude = 0, lc_longitude = 106 \<rparr>
       \<le> searchRadius equator_state \<and>
   businessesWithDistance equator_state = [\<lparr> biz = equator_biz, distance = None \<rparr>]"
proof -
  have d: "getDistance \<lparr> lc_latitude = 0, lc_longitude = 16 \<rparr>
             \<lparr> lc_latitude = 0, lc_longitude = 106 \<rparr> = 6371 * (pi / 2)"
    using getDistance_quarter [of 16] by simp
  have "businessesWithDistance equator_state = [\<lparr> biz = equator_biz, distance = None \<rparr>]"
    by (simp add: businessesWithDistance_def equator_state_def with_distance_def
          truthy_number_def equator_biz_def within_radius_def js_sort_def)
  then show ?thesis
    unfolding d using pi_ge_two by (simp add: equator_state_def equator_biz_def)
qed

text \<open>
  C3.  The ranker's output is non-decreasing by distance with an undefined distance counted as
  infinite, so every entry without a distance comes after every entry with one; and the entries
  with the same distance, read in output order, are in the order they have in the business
  list.  This holds with and without a current location.
\<close>

theorem ranker_sorted_stable:
  "sorted_wrt by_distance (businessesWithDistance s) \<and>
   (\<forall>i j. i < j \<and> j < length (businessesWithDistance s) \<and>
          distance (businessesWithDistance s ! i) = None \<longrightarrow>
          distance (businessesWithDistance s ! j) = None) \<and>
   (\<forall>k. subseq (map biz (filter (\<lambda>e. distance e = k) (businessesWithDistance s)))
               (businesses s))"
  using sorted_businessesWithDistance [of s] subseq_equal_distance [of _ s]
    sorted_wrt_None_trailing [of "businessesWithDistance s"]
  by blast

theorem ranker_sorted_stable_witness:
  "businessesWithDistance scenario_state =
     [\<lparr> biz = near_biz, distance = Some 0 \<rparr>,
      \<lparr> biz = equator_biz, distance = None \<rparr>,
      \<lparr> biz = other_xyz, distance = None \<rparr>] \<and>
   (1::nat) < 2 \<and> 2 < length (businessesWithDistance scenario_state) \<and>
   distance (businessesWithDistance scenario_state ! 1) = None \<and>
   distance (businessesWithDistance scenario_state ! 2) = None \<and>
   map biz (filter (\<lambda>e. distance e = None) (businessesWithDistance scenario_state)) =
     [equator_biz, other_xyz]"
  using ranker_sorted_stable [of scenario_state]
  by (simp add: businessesWithDistance_scenario)

text \<open>
  C9.  A business whose latitude or longitude is \<open>0\<close> gets no distance: the test
  \<open>biz.latitude && biz.longitude\<close> is false for it.  It is therefore kept for every radius,
  it comes after every entry that has a distance, and its card among the favorites shows no
  distance either.
\<close>

theorem ranker_zero_coordinate:
  assumes "location s = Some loc" and "b \<in> set (businesses s)"
    and "latitude b = Some 0 \<or> longitude b = Some 0"
  shows "with_distance loc b = \<lparr> biz = b, distance = None \<rparr> \<and>
         \<lparr> biz = b, distance = None \<rparr> \<in> set (businessesWithDistance s) \<and>
         (\<forall>i j. i < length (businessesWithDistance s) \<and> j < length (businessesWithDistance s) \<and>
                businessesWithDistance s ! i = \<lparr> biz = b, distance = None \<rparr> \<and>
                distance (businessesWithDistance s ! j) \<noteq> None \<longrightarrow> j < i) \<and>
         favorite_distance s b = None"
proof -
  have w: "with_distance loc b = \<lparr> biz = b, distance = None \<rparr>"
    using assms(3) by (auto simp: with_distance_def truthy_number_def)
  have m: "\<lparr> biz = b, distance = None \<rparr> \<in> set (businessesWithDistance s)"
    using assms(2) w
    by (force simp: set_businessesWithDistance [OF assms(1)] within_radius_def)
  have o: "j < i"
    if "i < length (businessesWithDistance s)" "j < length (businessesWithDistance s)"
      "businessesWithDistance s ! i = \<lparr> biz = b, distance = None \<rparr>"
      "distance (businessesWithDistance s ! j) \<noteq> None" for i j
  proof (rule ccontr)
    assume "\<not> j < i"
    with that(3,4) have "i < j"
      by (cases "i = j") auto
    with sorted_wrt_None_trailing [OF sorted_businessesWithDistance this that(2)] that(3,4)
    show False by simp
  qed
  have f: "favorite_distance s b = None"
    using assms(1,3) by (auto simp: favorite_distance_def truthy_number_def)
  from w m o f show ?thesis
    by blast
qed

theorem ranker_zero_coordinate_witness:
  "location scenario_state = Some here \<and>
   equator_biz \<in> set (businesses scenario_state) \<and>
   latitude equator_biz = Some 0 \<and>
   with_distance here equator_biz = \<lparr> biz = equator_biz, distance = None \<rparr> \<and>
   \<lparr> biz = equator_biz, distance = None \<rparr> \<in> set (businessesWithDistance scenario_state) \<and>
   businessesWithDistance scenario_state ! 1 = \<lparr> biz = equator_biz, distance = None \<rparr> \<and>
   distance (businessesWithDistance scenario_state ! 0) = Some 0 \<and>
   favorite_distance scenario_state equator_biz = None"
proof -
  have l: "location scenario_state = Some here"
    by (simp add: scenario_state_def)
  have m: "equator_biz \<in> set (businesses scenario_state)"
    by (simp add: scenario_state_def)
  have z: "latitude equator_biz = Some 0 \<or> longitude equator_biz = Some 0"
    by (simp add: equator_biz_def)
  from ranker_zero_coordinate [OF l m z] l m show ?thesis
    by (simp add: businessesWithDistance_scenario) (simp add: equator_biz_def)
qed

section \<open>The favorites store\<close>

lemma isFavorite_iff: "isFavorite s b \<longleftrightarrow> placeId b \<in> placeId ` set (favorites s)"
proof -
  have "(\<exists>fav \<in> set (favorites s). placeId fav = placeId b) \<longleftrightarrow>
        (\<exists>fav \<in> set (favorites s). placeId b = placeId fav)"
    by metis
  then show ?thesis
    by (simp add: isFavorite_def list_ex_iff image_iff)
qed

lemma favorites_toggleFavorite:
  "favorites (toggleFavorite s b) =
     (if isFavorite s b then filter (\<lambda>fav. placeId fav \<noteq> placeId b) (favorites s)
      else favorites s @ [b])"
  by (simp add: toggleFavorite_def Let_def)

lemma stored_toggleFavorite:
  "localStorage_favoriteBusinesses (toggleFavorite s b) = StoredList (favorites (toggleFavorite s b))"
  by (simp add: toggleFavorite_def Let_def)

lemma isFavorite_toggleFavorite: "isFavorite (toggleFavorite s b) b \<longleftrightarrow> \<not> isFavorite s b"
  by (auto simp: isFavorite_iff favorites_toggleFavorite)

lemma favorites_toggle_twice:
  "favorites (toggleFavorite (toggleFavorite s b) b) =
     (if isFavorite s b then filter (\<lambda>fav. placeId fav \<noteq> placeId b) (favorites s) @ [b]
      else favorites s)"
proof (cases "isFavorite s b")
  case True
  then show ?thesis
    by (simp add: favorites_toggleFavorite [of "toggleFavorite s b"] isFavorite_toggleFavorite)
       (simp add: favorites_toggleFavorite)
next
  case False
  then have "\<forall>fav \<in> set (favorites s). placeId fav \<noteq> placeId b"
    unfolding isFavorite_iff by (metis imageI)
  then have "filter (\<lambda>fav. placeId fav \<noteq> placeId b) (favorites s) = favorites s"
    by (simp add: filter_id_conv)
  with False show ?thesis
    by (simp add: favorites_toggleFavorite [of "toggleFavorite s b"] isFavorite_toggleFavorite)
       (simp add: favorites_toggleFavorite)
qed

text \<open>
  C5, as the code has it.  Toggling the same business twice restores the set of place
  identifiers of the favorites, and the persisted copy equals the list in memory.  It restores
  the list itself when the business's identifier was not among the favorites.  When the
  business is one of the favorites (and no two favorites share an identifier), the same records
  come back, with that business moved to the end.  When the favorites hold another record with
  the business's identifier, that record is gone and the toggled one has taken its place.
\<close>

theorem toggleFavorite_twice:
  "favorites (toggleFavorite (toggleFavorite s b) b) =
     (if isFavorite s b
      then filter (\<lambda>fav. placeId fav \<noteq> placeId b) (favorites s) @ [b]
      else favorites s) \<and>
   placeId ` set (favorites (toggleFavorite (toggleFavorite s b) b)) = placeId ` set (favorites s) \<and>
   (\<not> isFavorite s b \<longrightarrow> favorites (toggleFavorite (toggleFavorite s b) b) = favorites s) \<and>
   (unique_placeIds (favorites s) \<and> b \<in> set (favorites s) \<longrightarrow>
      set (favorites (toggleFavorite (toggleFavorite s b) b)) = set (favorites s) \<and>
      favorites (toggleFavorite (toggleFavorite s b) b) = filter (\<lambda>fav. fav \<noteq> b) (favorites s) @ [b]) \<and>
   localStorage_favoriteBusinesses (toggleFavorite (toggleFavorite s b) b) =
     StoredList (favorites (toggleFavorite (toggleFavorite s b) b))"
proof -
  have ids: "placeId ` set (favorites (toggleFavorite (toggleFavorite s b) b)) = placeId ` set (favorites s)"
    by (auto simp: favorites_toggle_twice isFavorite_iff)
  have absent: "favorites (toggleFavorite (toggleFavorite s b) b) = favorites s" if "\<not> isFavorite s b"
    using that by (simp add: favorites_toggle_twice)
  have present: "set (favorites (toggleFavorite (toggleFavorite s b) b)) = set (favorites s) \<and>
      favorites (toggleFavorite (toggleFavorite s b) b) = filter (\<lambda>fav. fav \<noteq> b) (favorites s) @ [b]"
    if u: "unique_placeIds (favorites s)" and m: "b \<in> set (favorites s)"
  proof -
    from m have f: "isFavorite s b"
      by (auto simp: isFavorite_iff)
    have "filter (\<lambda>fav. placeId fav \<noteq> placeId b) (favorites s) = filter (\<lambda>fav. fav \<noteq> b) (favorites s)"
      using u m by (intro filter_cong) (auto simp: unique_placeIds_def distinct_map inj_on_def)
    with f m show ?thesis
      by (auto simp: favorites_toggle_twice)
  qed
  show ?thesis
    using favorites_toggle_twice [of s b] ids absent present
      stored_toggleFavorite [of "toggleFavorite s b" b]
    by blast
qed

theorem toggleFavorite_twice_witness:
  "\<not> isFavorite scenario_state other_xyz \<and>
   favorites (toggleFavorite (toggleFavorite scenario_state other_xyz) other_xyz) =
     favorites scenario_state \<and>
   unique_placeIds (favorites scenario_state) \<and> first_abc \<in> set (favorites scenario_state) \<and>
   set (favorites (toggleFavorite (toggleFavorite scenario_state first_abc) first_abc)) =
     set (favorites scenario_state) \<and>
   isFavorite scenario_state second_abc \<and>
   favorites (toggleFavorite (toggleFavorite scenario_state second_abc) second_abc) =
     filter (\<lambda>fav. placeId fav \<noteq> placeId second_abc) (favorites scenario_state) @ [second_abc]"
proof -
  have a: "\<not> isFavorite scenario_state other_xyz"
    by (simp add: isFavorite_def scenario_state_def other_xyz_def first_abc_def)
  have u: "unique_placeIds (favorites scenario_state) \<and> first_abc \<in> set (favorites scenario_state)"
    by (simp add: unique_placeIds_def scenario_state_def)
  have r: "isFavorite scenario_state second_abc"
    by (simp add: isFavorite_def scenario_state_def second_abc_def first_abc_def)
  have 1: "favorites (toggleFavorite (toggleFavorite scenario_state other_xyz) other_xyz) =
             favorites scenario_state"
    using toggleFavorite_twice [of scenario_state other_xyz] a by blast
  have 2: "set (favorites (toggleFavorite (toggleFavorite scenario_state first_abc) first_abc)) =
             set (favorites scenario_state)"
    using toggleFavorite_twice [of scenario_state first_abc] u by blast
  have "favorites (toggleFavorite (toggleFavorite scenario_state second_abc) second_abc) =
          (if isFavorite scenario_state second_abc
           then filter (\<lambda>fav. placeId fav \<noteq> placeId second_abc) (favorites scenario_state)
                @ [second_abc]
           else favorites scenario_state)"
    using toggleFavorite_twice [of scenario_state second_abc] by blast
  then have 3: "favorites (toggleFavorite (toggleFavorite scenario_state second_abc) second_abc) =
      filter (\<lambda>fav. placeId fav \<noteq> placeId second_abc) (favorites scenario_state) @ [second_abc]"
    using r by (simp only: if_True)
  from a u r 1 2 3 show ?thesis
    by blast
qed

text \<open>
  C5 as the specification words it fails when the favorites hold a record with the toggled
  business's identifier and other data (the same place found by another search): what was
  stored is not restored.
\<close>

theorem toggleFavorite_twice_counterexample:
  "favorites scenario_state = [first_abc] \<and>
   favorites (toggleFavorite (toggleFavorite scenario_state second_abc) second_abc) = [second_abc] \<and>
   set [second_abc] \<noteq> set [first_abc]"
  by (simp add: toggleFavorite_def Let_def isFavorite_def scenario_state_def first_abc_def
        second_abc_def)

text \<open>
  C7.  Every operation of the favorites store, and so every sequence of them, preserves the
  invariant that no two entries share a place identifier, in the list in memory and in the
  persisted copy that \<open>load\<close> reads.
\<close>

theorem favorites_invariant_preserved:
  assumes "favorites_invariant s"
  shows "favorites_invariant (fst (run_operation s operation)) \<and>
         favorites_invariant (run_operations s operations)"
proof -
  have step: "favorites_invariant (fst (run_operation t operation))"
    if "favorites_invariant t" for t operation
  proof (cases operation)
    case Load
    with that show ?thesis
      by (auto simp: favorites_invariant_def load_favorites_def split: stored.splits)
  next
    case (Toggle b)
    have "unique_placeIds (favorites (toggleFavorite t b))"
      using that
      by (auto simp: favorites_invariant_def unique_placeIds_def favorites_toggleFavorite
            isFavorite_iff distinct_map_filter)
    with Toggle show ?thesis
      by (simp add: favorites_invariant_def stored_toggleFavorite)
  next
    case (IsFavorite b)
    with that show ?thesis by simp
  qed
  have "favorites_invariant t \<Longrightarrow> favorites_invariant (run_operations t operations)" for t
    by (induction operations arbitrary: t) (simp_all add: step)
  with assms step show ?thesis
    by blast
qed

theorem favorites_invariant_preserved_witness:
  "favorites_invariant scenario_state \<and>
   favorites (fst (run_operation scenario_state (Toggle other_xyz))) = [first_abc, other_xyz] \<and>
   favorites_invariant (fst (run_operation scenario_state (Toggle other_xyz))) \<and>
   favorites (run_operations scenario_state [Toggle second_abc, Load, IsFavorite first_abc]) = [] \<and>
   favorites_invariant
     (run_operations scenario_state [Toggle second_abc, Load, IsFavorite first_abc])"
proof -
  have i: "favorites_invariant scenario_state"
    by (simp add: favorites_invariant_def unique_placeIds_def scenario_state_def)
  have "favorites (fst (run_operation scenario_state (Toggle other_xyz))) = [first_abc, other_xyz]"
    "favorites (run_operations scenario_state [Toggle second_abc, Load, IsFavorite first_abc]) = []"
    by (simp_all add: toggleFavorite_def load_favorites_def Let_def isFavorite_def
          scenario_state_def first_abc_def second_abc_def other_xyz_def)
  with i favorites_invariant_preserved [OF i, of "Toggle other_xyz"
      "[Toggle second_abc, Load, IsFavorite first_abc]"]
  show ?thesis by blast
qed

section \<open>The search orchestrator\<close>

lemma findNearbyBusinesses_error:
  assumes "findNearbyBusinesses env category loc ml = Inl e"
  shows "(\<exists>m. e = JsError (''Failed to find businesses: '' @ m)) \<or>
         e = JsError ''An unknown error occurred while finding businesses.''"
  using assms by (auto simp: findNearbyBusinesses_def split: sum.splits thrown.splits)

lemma handleSearch_begin_cases:
  "handleSearch_begin s =
     (if trim (searchTerm s) = []
      then Finished (s\<lparr>error := Some ''Please enter a business category to search.''\<rparr>)
      else if location s = None \<and> trim (manualLocation s) = []
      then Finished (s\<lparr>error := Some (''Could not get your location. Please enable location ''
                       @ ''services in your browser or enter a location manually.'')\<rparr>)
      else Awaiting (s\<lparr>isLoading := True, error := None, businesses := []\<rparr>))"
  by (simp add: handleSearch_begin_def truthy_string_def)

lemma no_results_message_distinct:
  "no_results_message c \<noteq> ''Failed to find businesses: '' @ m"
  "no_results_message c \<noteq> ''An unknown error occurred while finding businesses.''"
  by (simp_all add: no_results_message_def)

lemma handleSearch_awaiting:
  assumes "trim (searchTerm s) \<noteq> []" "location s \<noteq> None \<or> trim (manualLocation s) \<noteq> []"
  shows "handleSearch_begin s = Awaiting (s\<lparr>isLoading := True, error := None, businesses := []\<rparr>)"
    and "handleSearch env s =
           (handleSearch_settle (searchTerm s) (s\<lparr>isLoading := True, error := None, businesses := []\<rparr>)
              (findNearbyBusinesses env (searchTerm s) (location s) (Some (manualLocation s))),
            [(searchTerm s, location s, Some (manualLocation s))])"
  using assms by (auto simp: handleSearch_def handleSearch_begin_cases)

lemma lookup_empty_env:
  "findNearbyBusinesses empty_env ''coffee shops'' (Some here) (Some []) = Inr []"
  by (simp add: findNearbyBusinesses_def findNearbyBusinesses_try_def empty_env_def
        truthy_string_def build_request_def no_answer_def read_response_def uniqueBusinesses_def
        new_Map_def map_values_def)

lemma lookup_keyless_env:
  "findNearbyBusinesses keyless_env ''coffee shops'' (Some here) (Some []) =
     Inl (JsError ''Failed to find businesses: API_KEY environment variable not set'')"
  by (simp add: findNearbyBusinesses_def findNearbyBusinesses_try_def keyless_env_def)

text \<open>
  C6.  \<open>handleSearch\<close> checks the category first and the location second.  A category that
  is blank after trimming gives the missing-category message; otherwise, no coordinates
  together with a blank manual location gives the missing-location message.  In both cases
  nothing else of the state changes and \<open>findNearbyBusinesses\<close> is not called; in every
  other case it is called once, with the category, the coordinates and the manual location.
\<close>

theorem handleSearch_validates_before_lookup:
  "(trim (searchTerm s) = [] \<longrightarrow>
      handleSearch env s =
        (s\<lparr>error := Some ''Please enter a business category to search.''\<rparr>, [])) \<and>
   (trim (searchTerm s) \<noteq> [] \<and> location s = None \<and> trim (manualLocation s) = [] \<longrightarrow>
      handleSearch env s =
        (s\<lparr>error := Some (''Could not get your location. Please enable location services ''
                          @ ''in your browser or enter a location manually.'')\<rparr>, [])) \<and>
   (trim (searchTerm s) \<noteq> [] \<and> (location s \<noteq> None \<or> trim (manualLocation s) \<noteq> []) \<longrightarrow>
      snd (handleSearch env s) = [(searchTerm s, location s, Some (manualLocation s))])"
  by (simp add: handleSearch_def handleSearch_begin_cases)

theorem handleSearch_validates_before_lookup_witness:
  "trim (searchTerm blank_state) = [] \<and>
   handleSearch empty_env blank_state =
     (blank_state\<lparr>error := Some ''Please enter a business category to search.''\<rparr>, []) \<and>
   trim (searchTerm unlocated_state) \<noteq> [] \<and> location unlocated_state = None \<and>
   trim (manualLocation unlocated_state) = [] \<and>
   handleSearch empty_env unlocated_state =
     (unlocated_state\<lparr>error := Some (''Could not get your location. Please enable location services ''
                          @ ''in your browser or enter a location manually.'')\<rparr>, []) \<and>
   trim (searchTerm scenario_state) \<noteq> [] \<and> location scenario_state \<noteq> None \<and>
   snd (handleSearch empty_env scenario_state) = [(''coffee shops'', Some here, Some [])]"
proof -
  have b: "trim (searchTerm blank_state) = []"
    by (simp add: blank_state_def initial_state_def trim_def)
  have u: "trim (searchTerm unlocated_state) \<noteq> [] \<and> location unlocated_state = None \<and>
           trim (manualLocation unlocated_state) = []"
    by (simp add: unlocated_state_def initial_state_def trim_def js_whitespace_def)
  have c: "trim (searchTerm scenario_state) \<noteq> [] \<and> location scenario_state \<noteq> None"
    by (simp add: scenario_state_def trim_def js_whitespace_def)
  have v: "searchTerm scenario_state = ''coffee shops'' \<and> location scenario_state = Some here \<and>
           manualLocation scenario_state = []"
    by (simp add: scenario_state_def)
  from handleSearch_validates_before_lookup [of blank_state empty_env]
    handleSearch_validates_before_lookup [of unlocated_state empty_env]
    handleSearch_validates_before_lookup [of scenario_state empty_env] b u c v
  show ?thesis by simp
qed

text \<open>
  C8, as the code has it.  When the lookup succeeds with an empty list, the result list is
  empty and the message \<open>No results found for "<category>". ...\<close> is stored in the same
  \<open>error\<close> field that a failed lookup writes; what tells the two apart is the text: every
  message of a failed lookup differs from it.
\<close>

theorem no_results_reported_as_error_message:
  assumes "trim (searchTerm s) \<noteq> []" "location s \<noteq> None \<or> trim (manualLocation s) \<noteq> []"
  shows "(findNearbyBusinesses env (searchTerm s) (location s) (Some (manualLocation s)) = Inr [] \<longrightarrow>
            fst (handleSearch env s) =
              s\<lparr>isLoading := False, error := Some (no_results_message (searchTerm s)),
                businesses := []\<rparr>) \<and>
         (\<forall>e. findNearbyBusinesses env (searchTerm s) (location s) (Some (manualLocation s)) = Inl e \<longrightarrow>
            (\<exists>m. e = JsError m \<and> m \<noteq> no_results_message (searchTerm s) \<and>
                 fst (handleSearch env s) =
                   s\<lparr>isLoading := False, error := Some m, businesses := []\<rparr>))"
proof (intro conjI impI allI)
  assume "findNearbyBusinesses env (searchTerm s) (location s) (Some (manualLocation s)) = Inr []"
  then show "fst (handleSearch env s) =
              s\<lparr>isLoading := False, error := Some (no_results_message (searchTerm s)),
                businesses := []\<rparr>"
    by (simp add: handleSearch_awaiting(2) [OF assms] handleSearch_settle_def)
next
  fix e
  assume f: "findNearbyBusinesses env (searchTerm s) (location s) (Some (manualLocation s)) = Inl e"
  from findNearbyBusinesses_error [OF f] obtain m
    where m: "e = JsError m" "m \<noteq> no_results_message (searchTerm s)"
    using no_results_message_distinct [of "searchTerm s"] by metis
  have "fst (handleSearch env s) = s\<lparr>isLoading := False, error := Some m, businesses := []\<rparr>"
    using f m(1) by (simp add: handleSearch_awaiting(2) [OF assms] handleSearch_settle_def)
  with m show "\<exists>m. e = JsError m \<and> m \<noteq> no_results_message (searchTerm s) \<and>
                 fst (handleSearch env s) =
                   s\<lparr>isLoading := False, error := Some m, businesses := []\<rparr>"
    by blast
qed

theorem no_results_reported_as_error_message_witness:
  "trim (searchTerm scenario_state) \<noteq> [] \<and> location scenario_state \<noteq> None \<and>
   findNearbyBusinesses empty_env (searchTerm scenario_state) (location scenario_state)
     (Some (manualLocation scenario_state)) = Inr [] \<and>
   fst (handleSearch empty_env scenario_state) =
     scenario_state\<lparr>isLoading := False,
       error := Some (no_results_message (searchTerm scenario_state)), businesses := []\<rparr> \<and>
   findNearbyBusinesses keyless_env (searchTerm scenario_state) (location scenario_state)
     (Some (manualLocation scenario_state)) =
     Inl (JsError ''Failed to find businesses: API_KEY environment variable not set'') \<and>
   fst (handleSearch keyless_env scenario_state) =
     scenario_state\<lparr>isLoading := False,
       error := Some ''Failed to find businesses: API_KEY environment variable not set'',
       businesses := []\<rparr>"
proof -
  have c: "trim (searchTerm scenario_state) \<noteq> []" "location scenario_state \<noteq> None"
    by (simp_all add: scenario_state_def trim_def js_whitespace_def)
  then have d: "location scenario_state \<noteq> None \<or> trim (manualLocation scenario_state) \<noteq> []"
    by simp
  have v: "searchTerm scenario_state = ''coffee shops''" "location scenario_state = Some here"
    "manualLocation scenario_state = []"
    by (simp_all add: scenario_state_def)
  from no_results_reported_as_error_message [OF c(1) d, of empty_env]
    no_results_reported_as_error_message [OF c(1) d, of keyless_env]
    c lookup_empty_env lookup_keyless_env
  show ?thesis
    unfolding v by simp
qed

text \<open>
  C8 as the specification words it (no results is not an error) fails: after a successful
  lookup without results the \<open>error\<close> field is set.
\<close>

theorem no_results_is_error_counterexample:
  "findNearbyBusinesses empty_env (searchTerm scenario_state) (location scenario_state)
     (Some (manualLocation scenario_state)) = Inr [] \<and>
   error (fst (handleSearch empty_env scenario_state)) =
     Some ''No results found for \"coffee shops\". Try a different category or location.''"
proof -
  have v: "searchTerm scenario_state = ''coffee shops''" "location scenario_state = Some here"
    "manualLocation scenario_state = []"
    by (simp_all add: scenario_state_def)
  have t: "trim ''coffee shops'' \<noteq> []"
    by (simp add: trim_def js_whitespace_def)
  show ?thesis
    unfolding v using t
    by (simp add: lookup_empty_env handleSearch_def handleSearch_begin_cases v
          handleSearch_settle_def no_results_message_def)
qed

text \<open>
  C10.  Once the validation has passed, \<open>handleSearch\<close> empties the result list before the
  lookup is awaited, and a failing lookup leaves it empty: the previous results are not
  restored, an error message is set and the loading flag is cleared.
\<close>

theorem handleSearch_clears_results:
  assumes "trim (searchTerm s) \<noteq> []" "location s \<noteq> None \<or> trim (manualLocation s) \<noteq> []"
  shows "handleSearch_begin s = Awaiting (s\<lparr>isLoading := True, error := None, businesses := []\<rparr>) \<and>
         (\<forall>e. findNearbyBusinesses env (searchTerm s) (location s) (Some (manualLocation s)) = Inl e \<longrightarrow>
              businesses (fst (handleSearch env s)) = [] \<and>
              error (fst (handleSearch env s)) \<noteq> None \<and>
              \<not> isLoading (fst (handleSearch env s)))"
  using handleSearch_awaiting [OF assms]
  by (auto simp: handleSearch_settle_def split: thrown.splits)

theorem handleSearch_clears_results_witness:
  "trim (searchTerm scenario_state) \<noteq> [] \<and> location scenario_state \<noteq> None \<and>
   businesses scenario_state = [equator_biz, far_biz, other_xyz, near_biz] \<and>
   findNearbyBusinesses keyless_env (searchTerm scenario_state) (location scenario_state)
     (Some (manualLocation scenario_state)) =
     Inl (JsError ''Failed to find businesses: API_KEY environment variable not set'') \<and>
   businesses (fst (handleSearch keyless_env scenario_state)) = []"
proof -
  have c: "trim (searchTerm scenario_state) \<noteq> []" "location scenario_state \<noteq> None"
    by (simp_all add: scenario_state_def trim_def js_whitespace_def)
  then have d: "location scenario_state \<noteq> None \<or> trim (manualLocation scenario_state) \<noteq> []"
    by simp
  have v: "searchTerm scenario_state = ''coffee shops''" "location scenario_state = Some here"
    "manualLocation scenario_state = []"
    by (simp_all add: scenario_state_def)
  have b: "businesses scenario_state = [equator_biz, far_biz, other_xyz, near_biz]"
    by (simp add: scenario_state_def)
  from handleSearch_clears_results [OF c(1) d, of keyless_env] c b lookup_keyless_env
  show ?thesis
    unfolding v by simp
qed

end
